theory Spec2Isabelle
  imports Main
begin

section \<open>JavaScript values used by the Trello client\<close>

text \<open>
  A JavaScript number that the client obtains from \<^verbatim>\<open>parseInt\<close>: either \<^verbatim>\<open>NaN\<close> or an
  integer. (\<^verbatim>\<open>parseInt\<close> yields a double; the model keeps the exact integer, which is the
  value JavaScript computes whenever its magnitude is at most \<open>2^53\<close>.)
\<close>

datatype jsnum = NaN | Num int

text \<open>\<^verbatim>\<open>x * 1000\<close> and \<^verbatim>\<open>x || d\<close> on such numbers: \<^verbatim>\<open>NaN\<close> and \<^verbatim>\<open>0\<close> are falsy.\<close>

fun js_times :: "jsnum \<Rightarrow> int \<Rightarrow> jsnum" where
  "js_times NaN k = NaN"
| "js_times (Num n) k = Num (n * k)"

fun num_or :: "jsnum \<Rightarrow> jsnum \<Rightarrow> jsnum" where
  "num_or NaN d = d"
| "num_or (Num n) d = (if n = 0 then d else Num n)"

text \<open>
  \<^verbatim>\<open>s || d\<close> where \<^verbatim>\<open>s\<close> is \<^verbatim>\<open>string | null\<close> (the result of \<^verbatim>\<open>headers.get\<close>):
  \<^verbatim>\<open>null\<close> and the empty string are falsy.
\<close>

fun str_or :: "string option \<Rightarrow> string \<Rightarrow> string" where
  "str_or None d = d"
| "str_or (Some s) d = (if s = [] then d else s)"

fun truthy_str :: "string option \<Rightarrow> bool" where
  "truthy_str None = False"
| "truthy_str (Some s) = (s \<noteq> [])"

subsection \<open>\<^verbatim>\<open>parseInt(s, 10)\<close>\<close>

text \<open>
  ECMAScript \<^verbatim>\<open>parseInt\<close> with radix 10: leading white space is skipped, one sign is
  read, then the longest run of decimal digits; no digit gives \<^verbatim>\<open>NaN\<close>. Header values
  are byte strings, so the white space characters that can occur are TAB, LF, VT, FF, CR,
  SPACE and NBSP (0xA0).
\<close>

definition is_js_space :: "char \<Rightarrow> bool" where
  "is_js_space c = (of_char c \<in> {9::nat, 10, 11, 12, 13, 32, 160})"

definition is_digit :: "char \<Rightarrow> bool" where
  "is_digit c = (48 \<le> (of_char c :: nat) \<and> (of_char c :: nat) \<le> 57)"

definition digit_value :: "char \<Rightarrow> int" where
  "digit_value c = int (of_char c) - 48"

definition digits_value :: "string \<Rightarrow> int" where
  "digits_value ds = foldl (\<lambda>a c. 10 * a + digit_value c) 0 ds"

definition parseInt :: "string \<Rightarrow> jsnum" where
  "parseInt s =
     (let t = dropWhile is_js_space s;
          neg = (t \<noteq> [] \<and> hd t = CHR ''-'');
          u = (if t \<noteq> [] \<and> (hd t = CHR ''-'' \<or> hd t = CHR ''+'') then tl t else t);
          ds = takeWhile is_digit u
      in if ds = [] then NaN
         else Num (if neg then - digits_value ds else digits_value ds))"

section \<open>Responses and rate-limit headers\<close>

text \<open>
  \<^verbatim>\<open>response.headers.get(name)\<close> is a lookup that yields \<^verbatim>\<open>null\<close> (here \<open>None\<close>) for a
  header that is absent. \<open>json\<close> is the outcome of \<^verbatim>\<open>await response.json()\<close>: the parsed
  payload, or the error object the promise rejects with when the body is not JSON.
\<close>

datatype js_error = JsError (is_TypeError: bool) (err_name: string) (err_message: string)

record 'd response =
  status :: nat
  statusText :: string
  headers :: "string \<rightharpoonup> string"
  json :: "js_error + 'd"

definition ok :: "'d response \<Rightarrow> bool" where
  "ok r = (200 \<le> status r \<and> status r \<le> 299)"

record RateLimitInfo =
  limit :: jsnum
  remaining :: jsnum
  resetTime :: jsnum

definition extractRateLimitInfo :: "'d response \<Rightarrow> RateLimitInfo option" where
  "extractRateLimitInfo r =
     (let limit = headers r ''x-rate-limit-api-key-limit'';
          remaining = headers r ''x-rate-limit-api-key-remaining'';
          reset = headers r ''x-rate-limit-api-key-reset''
      in if truthy_str limit
         then Some \<lparr> limit = num_or (parseInt (the limit)) (Num 300),
                     remaining = parseInt (str_or remaining ''0''),
                     resetTime = parseInt (str_or reset ''0'') \<rparr>
         else None)"

section \<open>Errors\<close>

text \<open>
  What a \<^verbatim>\<open>catch\<close> clause of the client can receive: \<^verbatim>\<open>undefined\<close> (the initial value
  of \<^verbatim>\<open>lastError\<close>), an \<^verbatim>\<open>Error\<close> object, a \<^verbatim>\<open>Response\<close>, or any other value, which
  is kept as the text \<^verbatim>\<open>String(value)\<close>. A response is an instance of \<^verbatim>\<open>Response\<close>, as
  \<^verbatim>\<open>fetch\<close> produces it; error objects and other values have no \<^verbatim>\<open>status\<close> property.
\<close>

datatype 'd thrown =
    Undefined
  | ErrorValue js_error
  | ResponseValue "'d response"
  | OtherValue string

record TrelloError =
  message :: string
  error :: "string option"
  status :: "nat option"
  code :: "string option"

text \<open>\<^verbatim>\<open>s.includes(sub)\<close>: \<open>sub\<close> occurs in \<open>s\<close> as a contiguous block.\<close>

fun str_includes :: "string \<Rightarrow> string \<Rightarrow> bool" where
  "str_includes [] sub = (sub = [])"
| "str_includes (c # cs) sub = (take (length sub) (c # cs) = sub \<or> str_includes cs sub)"

text \<open>Decimal rendering of a status code, as the template literal does.\<close>

definition digit_char :: "nat \<Rightarrow> char" where
  "digit_char n = ''0123456789'' ! n"

function decimal :: "nat \<Rightarrow> string" where
  "decimal n =
     (let last_digit = digit_char (n mod 10)
      in if n div 10 = 0 then [last_digit] else decimal (n div 10) @ [last_digit])"
  by pat_completeness auto
termination
  by (relation "measure (\<lambda>n. n)") auto

declare decimal.simps [simp del]

text \<open>\<^verbatim>\<open>error instanceof TypeError && error.message.includes('fetch')\<close>\<close>

fun is_network_error :: "'d thrown \<Rightarrow> bool" where
  "is_network_error (ErrorValue e) = (is_TypeError e \<and> str_includes (err_message e) ''fetch'')"
| "is_network_error _ = False"

text \<open>\<^verbatim>\<open>error instanceof Error && error.name === 'AbortError'\<close>\<close>

fun is_abort_error :: "'d thrown \<Rightarrow> bool" where
  "is_abort_error (ErrorValue e) = (err_name e = ''AbortError'')"
| "is_abort_error _ = False"

text \<open>\<^verbatim>\<open>error instanceof Error ? error.message : String(error)\<close>\<close>

fun error_text :: "'d thrown \<Rightarrow> string" where
  "error_text Undefined = ''undefined''"
| "error_text (ErrorValue e) = err_message e"
| "error_text (OtherValue s) = s"
| "error_text (ResponseValue r) = ''[object Response]''"

definition status_message :: "nat \<Rightarrow> string" where
  "status_message s =
     (if s = 401 then ''Invalid or expired Trello credentials. Please update your API key and token in Claude.app's MCP connection settings.''
      else if s = 403 then ''Insufficient permissions. Your Trello token may need additional permissions, or the resource may be private. Please check your Trello settings or update your token in Claude.app.''
      else if s = 404 then ''Resource not found''
      else if s = 429 then ''Rate limit exceeded''
      else if s = 500 then ''Trello server error''
      else ''HTTP '' @ decimal s @ '' error'')"

definition status_code :: "nat \<Rightarrow> string" where
  "status_code s =
     (if s = 401 then ''INVALID_CREDENTIALS''
      else if s = 403 then ''INSUFFICIENT_PERMISSIONS''
      else if s = 404 then ''NOT_FOUND''
      else if s = 429 then ''RATE_LIMIT_EXCEEDED''
      else if s = 500 then ''SERVER_ERROR''
      else ''API_ERROR'')"

definition handleError :: "'d thrown \<Rightarrow> TrelloError" where
  "handleError err =
     (if is_network_error err then
        \<lparr> message = ''Network error - unable to reach Trello API'',
          error = Some (error_text err), status = None, code = Some ''NETWORK_ERROR'' \<rparr>
      else if is_abort_error err then
        \<lparr> message = ''Request timeout - Trello API did not respond in time'',
          error = Some (error_text err), status = None, code = Some ''TIMEOUT_ERROR'' \<rparr>
      else (case err of
          ResponseValue r \<Rightarrow>
            \<lparr> message = status_message (response.status r),
              error = Some (decimal (response.status r) @ '' - '' @ statusText r),
              status = Some (response.status r),
              code = Some (status_code (response.status r)) \<rparr>
        | _ \<Rightarrow>
            \<lparr> message = ''Unknown error occurred'',
              error = Some (error_text err), status = None, code = Some ''UNKNOWN_ERROR'' \<rparr>))"

definition shouldRetry :: "'d thrown \<Rightarrow> bool" where
  "shouldRetry err =
     (if is_network_error err then True
      else if is_abort_error err then True
      else (case err of
          ResponseValue r \<Rightarrow> response.status r \<ge> 500 \<or> response.status r = 429
        | _ \<Rightarrow> False))"

section \<open>The request loop\<close>

record RetryConfig =
  maxRetries :: nat
  baseDelay :: int
  maxDelay :: int

definition retryConfig :: RetryConfig where
  "retryConfig = \<lparr> maxRetries = 3, baseDelay = 1000, maxDelay = 10000 \<rparr>"

text \<open>
  \<^verbatim>\<open>calculateBackoffDelay\<close> is only called from the loop, where \<open>attempt \<ge> 1\<close>, so the
  exponent \<open>attempt - 1\<close> is a natural number.
\<close>

definition calculateBackoffDelay :: "RetryConfig \<Rightarrow> nat \<Rightarrow> int" where
  "calculateBackoffDelay cfg attempt =
     (let delay = baseDelay cfg * 2 ^ (attempt - 1) in min delay (maxDelay cfg))"

record 'd TrelloApiResponse =
  data :: 'd
  rateLimit :: "RateLimitInfo option"

text \<open>
  What \<^verbatim>\<open>makeRequest\<close> does that the outside can observe: the physical attempts (calls of
  \<^verbatim>\<open>fetchWithTimeout\<close>, with the attempt number) and the sleeps (in milliseconds). Log and
  telemetry calls are left out.
\<close>

datatype event = Attempt nat | Sleep jsnum

text \<open>
  The \<^verbatim>\<open>try\<close> block of one iteration, given what \<^verbatim>\<open>fetchWithTimeout\<close> produced (\<open>Inl\<close> a
  rejection, \<open>Inr\<close> a response): it returns, or reaches the \<^verbatim>\<open>continue\<close> of the 429 branch
  with the parsed \<^verbatim>\<open>retry-after\<close>, or throws.
\<close>

datatype 'd try_outcome =
    Returned "'d TrelloApiResponse"
  | RateLimited jsnum
  | Thrown "'d thrown"

definition try_block :: "'d thrown + 'd response \<Rightarrow> 'd try_outcome" where
  "try_block fetched =
     (case fetched of
        Inl err \<Rightarrow> Thrown err
      | Inr response \<Rightarrow>
          (let rateLimit = extractRateLimitInfo response in
           if \<not> ok response then
             (if response.status response = 429
              then RateLimited (parseInt (str_or (headers response ''retry-after'') ''60''))
              else Thrown (ResponseValue response))
           else (case json response of
                   Inl e \<Rightarrow> Thrown (ErrorValue e)
                 | Inr d \<Rightarrow> Returned \<lparr> data = d, rateLimit = rateLimit \<rparr>)))"

text \<open>\<^verbatim>\<open>error instanceof Response && error.status === 429\<close>\<close>

fun is_response_429 :: "'d thrown \<Rightarrow> bool" where
  "is_response_429 (ResponseValue r) = (response.status r = 429)"
| "is_response_429 _ = False"

definition prepend :: "event list \<Rightarrow> 'a \<times> event list \<Rightarrow> 'a \<times> event list" where
  "prepend evs p = (fst p, evs @ snd p)"

text \<open>
  The \<^verbatim>\<open>for\<close> loop of \<^verbatim>\<open>makeRequest\<close> from \<open>attempt\<close> on, with the current \<^verbatim>\<open>lastError\<close>.
  \<open>fetch n\<close> is the outcome of the \<open>n\<close>-th call of \<^verbatim>\<open>fetchWithTimeout\<close>; the URL, built once
  before the loop, is the same in every call. The result is the
  value returned (\<open>Inr\<close>) or thrown (\<open>Inl\<close>), with the events in order. Every \<^verbatim>\<open>continue\<close>
  passes through the loop's \<^verbatim>\<open>attempt++\<close> and its test \<^verbatim>\<open>attempt <= maxRetries\<close>.
\<close>

function makeRequest_loop ::
  "RetryConfig \<Rightarrow> (nat \<Rightarrow> 'd thrown + 'd response) \<Rightarrow> nat \<Rightarrow> 'd thrown
     \<Rightarrow> (TrelloError + 'd TrelloApiResponse) \<times> event list" where
  "makeRequest_loop cfg fetch attempt lastError =
     (if attempt \<le> maxRetries cfg then
        (case try_block (fetch attempt) of
           Returned res \<Rightarrow> (Inr res, [Attempt attempt])
         | RateLimited retryAfter \<Rightarrow>
             prepend [Attempt attempt, Sleep (js_times retryAfter 1000)]
               (makeRequest_loop cfg fetch (attempt + 1) lastError)
         | Thrown err \<Rightarrow>
             if is_response_429 err then
               prepend [Attempt attempt] (makeRequest_loop cfg fetch (attempt + 1) err)
             else if attempt < maxRetries cfg \<and> shouldRetry err then
               prepend [Attempt attempt, Sleep (Num (calculateBackoffDelay cfg attempt))]
                 (makeRequest_loop cfg fetch (attempt + 1) err)
             else (Inl (handleError err), [Attempt attempt]))
      else (Inl (handleError lastError), []))"
  by pat_completeness auto
termination
  by (relation "measure (\<lambda>(cfg, fetch, attempt, lastError). maxRetries cfg + 1 - attempt)") auto

declare makeRequest_loop.simps [simp del]

definition makeRequest ::
  "RetryConfig \<Rightarrow> (nat \<Rightarrow> 'd thrown + 'd response)
     \<Rightarrow> (TrelloError + 'd TrelloApiResponse) \<times> event list" where
  "makeRequest cfg fetch = makeRequest_loop cfg fetch 1 Undefined"

definition attempts :: "event list \<Rightarrow> nat list" where
  "attempts evs = concat (map (\<lambda>e. case e of Attempt n \<Rightarrow> [n] | Sleep d \<Rightarrow> []) evs)"

definition sleeps :: "event list \<Rightarrow> jsnum list" where
  "sleeps evs = concat (map (\<lambda>e. case e of Attempt n \<Rightarrow> [] | Sleep d \<Rightarrow> [d]) evs)"

section \<open>Building the request URL\<close>

record TrelloCredentials =
  apiKey :: string
  token :: string
















section \<open>The search operation\<close>











section \<open>The other operations\<close>



























section \<open>Sample inputs\<close>

text \<open>A response without a body of interest, and a backend that answers every attempt alike.\<close>

definition plain_response :: "nat \<Rightarrow> string \<Rightarrow> (string \<rightharpoonup> string) \<Rightarrow> unit response" where
  "plain_response s t hs = \<lparr> response.status = s, statusText = t, headers = hs, json = Inr () \<rparr>"

fun constant_backend :: "'d response \<Rightarrow> nat \<Rightarrow> 'd thrown + 'd response" where
  "constant_backend r n = Inr r"

text \<open>A successful response whose body is not JSON: \<^verbatim>\<open>response.json()\<close> rejects.\<close>

definition unparsable_body_response :: "unit response" where
  "unparsable_body_response =
     \<lparr> response.status = 200, statusText = ''OK'', headers = Map.empty,
       json = Inl (JsError False ''SyntaxError'' ''Unexpected end of JSON input'') \<rparr>"




section \<open>Properties\<close>

subsection \<open>One iteration of the loop\<close>

lemmas parseInt_eval = parseInt_def is_js_space_def is_digit_def digits_value_def digit_value_def

lemma try_block_429:
  "response.status r = 429 \<Longrightarrow>
   try_block (Inr r) = RateLimited (parseInt (str_or (headers r ''retry-after'') ''60''))"
  by (simp add: try_block_def ok_def)

lemma try_block_failure:
  "\<not> ok r \<Longrightarrow> response.status r \<noteq> 429 \<Longrightarrow> try_block (Inr r) = Thrown (ResponseValue r)"
  by (simp add: try_block_def)

lemma try_block_success:
  "ok r \<Longrightarrow> json r = Inr d \<Longrightarrow>
   try_block (Inr r) = Returned \<lparr> data = d, rateLimit = extractRateLimitInfo r \<rparr>"
  by (simp add: try_block_def)

lemma try_block_rejected: "try_block (Inl err) = Thrown err"
  by (simp add: try_block_def)

lemma loop_exhausted:
  "maxRetries cfg < attempt \<Longrightarrow>
   makeRequest_loop cfg fetch attempt lastError = (Inl (handleError lastError), [])"
  by (subst makeRequest_loop.simps) simp

lemma loop_rate_limited:
  "attempt \<le> maxRetries cfg \<Longrightarrow> try_block (fetch attempt) = RateLimited ra \<Longrightarrow>
   makeRequest_loop cfg fetch attempt lastError =
     prepend [Attempt attempt, Sleep (js_times ra 1000)]
       (makeRequest_loop cfg fetch (attempt + 1) lastError)"
  by (subst makeRequest_loop.simps) simp

lemma loop_returned:
  "attempt \<le> maxRetries cfg \<Longrightarrow> try_block (fetch attempt) = Returned res \<Longrightarrow>
   makeRequest_loop cfg fetch attempt lastError = (Inr res, [Attempt attempt])"
  by (subst makeRequest_loop.simps) simp

lemma loop_retry:
  "attempt < maxRetries cfg \<Longrightarrow> try_block (fetch attempt) = Thrown err \<Longrightarrow>
   \<not> is_response_429 err \<Longrightarrow> shouldRetry err \<Longrightarrow>
   makeRequest_loop cfg fetch attempt lastError =
     prepend [Attempt attempt, Sleep (Num (calculateBackoffDelay cfg attempt))]
       (makeRequest_loop cfg fetch (attempt + 1) err)"
  by (subst makeRequest_loop.simps) simp

lemma loop_throw:
  "attempt \<le> maxRetries cfg \<Longrightarrow> try_block (fetch attempt) = Thrown err \<Longrightarrow>
   \<not> is_response_429 err \<Longrightarrow> attempt = maxRetries cfg \<or> \<not> shouldRetry err \<Longrightarrow>
   makeRequest_loop cfg fetch attempt lastError = (Inl (handleError err), [Attempt attempt])"
  by (subst makeRequest_loop.simps) auto

lemma attempts_simps:
  "attempts [] = []"
  "attempts (Attempt n # evs) = n # attempts evs"
  "attempts (Sleep d # evs) = attempts evs"
  by (simp_all add: attempts_def)

lemma sleeps_simps:
  "sleeps [] = []"
  "sleeps (Attempt n # evs) = sleeps evs"
  "sleeps (Sleep d # evs) = d # sleeps evs"
  by (simp_all add: sleeps_def)

lemma attempts_prepend:
  "attempts (snd (prepend evs p)) = attempts evs @ attempts (snd p)"
  by (simp add: prepend_def attempts_def)

lemma fst_prepend: "fst (prepend evs p) = fst p"
  by (simp add: prepend_def)

lemma loop_first_attempt:
  "attempt \<le> maxRetries cfg \<Longrightarrow>
   \<exists>rest. attempts (snd (makeRequest_loop cfg fetch attempt lastError)) = attempt # rest"
  by (subst makeRequest_loop.simps)
     (simp add: attempts_prepend attempts_simps split: try_outcome.splits)

lemma loop_attempts_bounded:
  "length (attempts (snd (makeRequest_loop cfg fetch attempt lastError)))
     \<le> maxRetries cfg + 1 - attempt"
proof (induction cfg fetch attempt lastError rule: makeRequest_loop.induct)
  case (1 cfg fetch attempt lastError)
  show ?case
  proof (cases "attempt \<le> maxRetries cfg")
    case False
    then show ?thesis by (simp add: loop_exhausted attempts_simps)
  next
    case inside: True
    show ?thesis
    proof (cases "try_block (fetch attempt)")
      case (Returned res)
      with inside show ?thesis by (simp add: loop_returned attempts_simps)
    next
      case (RateLimited ra)
      with inside "1.IH"(1) [of ra] show ?thesis
        by (simp add: loop_rate_limited attempts_prepend attempts_simps)
    next
      case (Thrown err)
      show ?thesis
      proof (cases "is_response_429 err")
        case True
        with inside Thrown "1.IH"(2) [of err] show ?thesis
          by (subst makeRequest_loop.simps) (simp add: attempts_prepend attempts_simps)
      next
        case not429: False
        show ?thesis
        proof (cases "attempt < maxRetries cfg \<and> shouldRetry err")
          case True
          then have lt: "attempt < maxRetries cfg" and sr: "shouldRetry err" by simp_all
          with not429 Thrown "1.IH"(3) [of err] show ?thesis
            by (simp add: loop_retry attempts_prepend attempts_simps)
        next
          case False
          with not429 Thrown inside show ?thesis
            by (subst makeRequest_loop.simps) (auto simp add: attempts_simps)
        qed
      qed
    qed
  qed
qed

lemma loop_error_normalized:
  "fst (makeRequest_loop cfg fetch attempt (lastError :: 'd thrown)) = Inl e \<Longrightarrow>
   \<exists>x :: 'd thrown. e = handleError x"
proof (induction cfg fetch attempt lastError rule: makeRequest_loop.induct)
  case (1 cfg fetch attempt lastError)
  show ?case
  proof (cases "attempt \<le> maxRetries cfg")
    case False
    with "1.prems" show ?thesis by (auto simp add: loop_exhausted)
  next
    case inside: True
    show ?thesis
    proof (cases "try_block (fetch attempt)")
      case (Returned res)
      with inside "1.prems" show ?thesis by (simp add: loop_returned)
    next
      case (RateLimited ra)
      with inside "1.prems" "1.IH"(1) [of ra] show ?thesis
        by (simp add: loop_rate_limited fst_prepend)
    next
      case (Thrown err)
      show ?thesis
      proof (cases "is_response_429 err")
        case True
        have "makeRequest_loop cfg fetch attempt lastError =
                prepend [Attempt attempt] (makeRequest_loop cfg fetch (attempt + 1) err)"
          using inside Thrown True by (subst makeRequest_loop.simps) simp
        with inside Thrown True "1.prems" "1.IH"(2) [of err] show ?thesis
          by (simp add: fst_prepend)
      next
        case not429: False
        show ?thesis
        proof (cases "attempt < maxRetries cfg \<and> shouldRetry err")
          case True
          then have lt: "attempt < maxRetries cfg" and sr: "shouldRetry err" by simp_all
          with not429 Thrown "1.prems" "1.IH"(3) [of err] show ?thesis
            by (simp add: loop_retry fst_prepend)
        next
          case False
          with not429 Thrown inside have
            "makeRequest_loop cfg fetch attempt lastError = (Inl (handleError err), [Attempt attempt])"
            by (intro loop_throw) auto
          with "1.prems" show ?thesis by auto
        qed
      qed
    qed
  qed
qed



subsection \<open>Rate-limited attempts\<close>

text \<open>
  C1, as amended. When attempt \<open>n\<close> receives a 429 response, the client sleeps for the integer value
  of the \<^verbatim>\<open>retry-after\<close> header in seconds (60 when the header is absent or empty) and passes
  to the loop's next iteration. Another physical attempt follows if and only if
  \<open>n < maxRetries\<close>; a 429 on attempt \<open>maxRetries\<close> ends the loop, and the call fails with the
  normalisation of \<^verbatim>\<open>lastError\<close>. No call makes more than \<open>maxRetries\<close> attempts.
\<close>

theorem rate_limited_retry_bounded:
  assumes "attempt \<le> maxRetries cfg" and "fetch attempt = Inr r" and "response.status r = 429"
  shows "makeRequest_loop cfg fetch attempt lastError =
           prepend [Attempt attempt,
                    Sleep (js_times (parseInt (str_or (headers r ''retry-after'') ''60'')) 1000)]
             (makeRequest_loop cfg fetch (attempt + 1) lastError)
         \<and> (headers r ''retry-after'' = None \<or> headers r ''retry-after'' = Some [] \<longrightarrow>
              js_times (parseInt (str_or (headers r ''retry-after'') ''60'')) 1000 = Num 60000)
         \<and> (\<forall>s k. headers r ''retry-after'' = Some s \<and> parseInt s = Num k \<longrightarrow>
              js_times (parseInt (str_or (headers r ''retry-after'') ''60'')) 1000 = Num (k * 1000))
         \<and> (attempt < maxRetries cfg \<longrightarrow>
              (\<exists>rest. attempts (snd (makeRequest_loop cfg fetch (attempt + 1) lastError))
                        = (attempt + 1) # rest))
         \<and> (attempt = maxRetries cfg \<longrightarrow>
              makeRequest_loop cfg fetch (attempt + 1) lastError = (Inl (handleError lastError), []))
         \<and> length (attempts (snd (makeRequest cfg fetch))) \<le> maxRetries cfg"
proof -
  have step: "try_block (fetch attempt)
                = RateLimited (parseInt (str_or (headers r ''retry-after'') ''60''))"
    using assms(2,3) by (simp add: try_block_429)
  have sixty: "parseInt ''60'' = Num 60"
    by (simp add: parseInt_eval)
  have empty: "parseInt [] = NaN"
    by (simp add: parseInt_eval)
  have a: "makeRequest_loop cfg fetch attempt lastError =
           prepend [Attempt attempt,
                    Sleep (js_times (parseInt (str_or (headers r ''retry-after'') ''60'')) 1000)]
             (makeRequest_loop cfg fetch (attempt + 1) lastError)"
    using assms(1) step by (rule loop_rate_limited)
  have b: "headers r ''retry-after'' = None \<or> headers r ''retry-after'' = Some [] \<longrightarrow>
              js_times (parseInt (str_or (headers r ''retry-after'') ''60'')) 1000 = Num 60000"
    using sixty by auto
  have c: "\<forall>s k. headers r ''retry-after'' = Some s \<and> parseInt s = Num k \<longrightarrow>
              js_times (parseInt (str_or (headers r ''retry-after'') ''60'')) 1000 = Num (k * 1000)"
    using empty by auto
  have d: "attempt < maxRetries cfg \<longrightarrow>
              (\<exists>rest. attempts (snd (makeRequest_loop cfg fetch (attempt + 1) lastError))
                        = (attempt + 1) # rest)"
    using loop_first_attempt [of "attempt + 1" cfg fetch lastError] by simp
  have e: "attempt = maxRetries cfg \<longrightarrow>
              makeRequest_loop cfg fetch (attempt + 1) lastError = (Inl (handleError lastError), [])"
    by (simp add: loop_exhausted)
  have f: "length (attempts (snd (makeRequest cfg fetch))) \<le> maxRetries cfg"
    using loop_attempts_bounded [of cfg fetch 1 Undefined] by (simp add: makeRequest_def)
  from a b c d e f show ?thesis by blast
qed

text \<open>C1, witness: the third 429 of the default configuration, with no \<^verbatim>\<open>retry-after\<close>.\<close>

theorem rate_limited_retry_bounded_witness:
  "(3::nat) \<le> maxRetries retryConfig
   \<and> constant_backend (plain_response 429 ''Too Many Requests'' Map.empty) 3
       = Inr (plain_response 429 ''Too Many Requests'' Map.empty)
   \<and> response.status (plain_response 429 ''Too Many Requests'' Map.empty) = 429
   \<and> makeRequest_loop retryConfig
        (constant_backend (plain_response 429 ''Too Many Requests'' Map.empty)) 3 Undefined
       = (Inl (handleError (Undefined :: unit thrown)), [Attempt 3, Sleep (Num 60000)])"
proof -
  have h1: "(3::nat) \<le> maxRetries retryConfig" by (simp add: retryConfig_def)
  have h2: "constant_backend (plain_response 429 ''Too Many Requests'' Map.empty) 3
       = Inr (plain_response 429 ''Too Many Requests'' Map.empty)" by simp
  have h3: "response.status (plain_response 429 ''Too Many Requests'' Map.empty) = 429"
    by (simp add: plain_response_def)
  have h4: "headers (plain_response 429 ''Too Many Requests'' Map.empty) ''retry-after'' = None"
    by (simp add: plain_response_def)
  have h5: "3 = maxRetries retryConfig" by (simp add: retryConfig_def)
  from rate_limited_retry_bounded
         [where attempt = 3 and cfg = retryConfig
            and fetch = "constant_backend (plain_response 429 ''Too Many Requests'' Map.empty)"
            and r = "plain_response 429 ''Too Many Requests'' Map.empty"
            and lastError = "Undefined :: unit thrown", OF h1 h2 h3]
       h1 h2 h3 h4 h5
  show ?thesis by (simp add: prepend_def)
qed

text \<open>
  C1 as stated fails: a backend that answers 429 forever is asked three times, not for ever;
  and an unparsable \<^verbatim>\<open>retry-after\<close> gives a sleep of \<^verbatim>\<open>NaN\<close> milliseconds, not 60 seconds.
\<close>

theorem rate_limited_retry_counterexample:
  "makeRequest retryConfig (constant_backend (plain_response 429 ''Too Many Requests'' Map.empty))
     = (Inl (handleError (Undefined :: unit thrown)),
        [Attempt 1, Sleep (Num 60000), Attempt 2, Sleep (Num 60000), Attempt 3, Sleep (Num 60000)])
   \<and> sleeps (snd (makeRequest retryConfig
        (constant_backend (plain_response 429 ''Too Many Requests'' [''retry-after'' \<mapsto> ''soon'']))))
     = [NaN, NaN, NaN]"
  by code_simp

text \<open>
  Whatever the configuration: when every attempt from \<open>attempt\<close> on is answered 429, the loop
  makes all the remaining attempts and fails with the normalisation of the \<^verbatim>\<open>lastError\<close> it
  started with; for a whole call that is \<^verbatim>\<open>undefined\<close>, hence \<^verbatim>\<open>UNKNOWN_ERROR\<close>.
\<close>

lemma all_attempts_rate_limited:
  assumes "\<And>n. attempt \<le> n \<Longrightarrow> n \<le> maxRetries cfg \<Longrightarrow>
             \<exists>r. fetch n = Inr r \<and> response.status r = 429"
  shows "fst (makeRequest_loop cfg fetch attempt lastError) = Inl (handleError lastError)
         \<and> attempts (snd (makeRequest_loop cfg fetch attempt lastError))
             = [attempt..<maxRetries cfg + 1]"
  using assms
proof (induction "maxRetries cfg + 1 - attempt" arbitrary: attempt)
  case 0
  then have "maxRetries cfg < attempt" by simp
  then show ?case by (simp add: loop_exhausted attempts_simps)
next
  case (Suc k)
  then have inside: "attempt \<le> maxRetries cfg" by simp
  from Suc.prems [of attempt] inside obtain r
    where r: "fetch attempt = Inr r" "response.status r = 429" by auto
  then have "try_block (fetch attempt)
               = RateLimited (parseInt (str_or (headers r ''retry-after'') ''60''))"
    by (simp add: try_block_429)
  with inside have step: "makeRequest_loop cfg fetch attempt lastError
     = prepend [Attempt attempt,
                Sleep (js_times (parseInt (str_or (headers r ''retry-after'') ''60'')) 1000)]
         (makeRequest_loop cfg fetch (attempt + 1) lastError)"
    by (rule loop_rate_limited)
  have rest: "fst (makeRequest_loop cfg fetch (attempt + 1) lastError) = Inl (handleError lastError)
         \<and> attempts (snd (makeRequest_loop cfg fetch (attempt + 1) lastError))
             = [attempt + 1..<maxRetries cfg + 1]"
  proof (rule Suc.hyps(1))
    show "k = maxRetries cfg + 1 - (attempt + 1)" using Suc.hyps(2) by simp
    show "\<exists>r. fetch n = Inr r \<and> response.status r = 429"
      if "attempt + 1 \<le> n" "n \<le> maxRetries cfg" for n
      using that Suc.prems [of n] by simp
  qed
  have "[attempt..<maxRetries cfg + 1] = attempt # [attempt + 1..<maxRetries cfg + 1]"
    using inside by (simp add: upt_conv_Cons)
  with step rest show ?case
    by (simp add: fst_prepend attempts_prepend attempts_simps)
qed

lemma rate_limit_exhaustion_unknown_error:
  assumes "\<And>n. 1 \<le> n \<Longrightarrow> n \<le> maxRetries cfg \<Longrightarrow>
             \<exists>r. fetch n = Inr r \<and> response.status r = 429"
  shows "\<exists>e. fst (makeRequest cfg fetch) = Inl e \<and> TrelloError.code e = Some ''UNKNOWN_ERROR''
             \<and> message e = ''Unknown error occurred'' \<and> TrelloError.status e = None"
  using all_attempts_rate_limited [of 1 cfg fetch Undefined] assms
  by (simp add: makeRequest_def handleError_def)

text \<open>
  C2: the error of a call whose three attempts were all answered 429. \<^verbatim>\<open>lastError\<close> is
  never assigned on the 429 path, so the error after the loop is the normalisation of
  \<^verbatim>\<open>undefined\<close>, not the rate-limit error.
\<close>

theorem rate_limit_exhaustion_error:
  "fst (makeRequest retryConfig (constant_backend (plain_response 429 ''Too Many Requests'' Map.empty)))
     = Inl \<lparr> message = ''Unknown error occurred'', error = Some ''undefined'',
             status = None, code = Some ''UNKNOWN_ERROR'' \<rparr>"
  by code_simp

subsection \<open>Server errors\<close>

text \<open>
  C3, as amended. For an HTTP failure with status 500 or more, the error has the code
  \<^verbatim>\<open>SERVER_ERROR\<close> exactly when the status is 500; every other status from 501 on has the code
  \<^verbatim>\<open>API_ERROR\<close> and the message \<^verbatim>\<open>HTTP <status> error\<close>. The error carries the status, and
  it is what the call fails with when the response comes on the last attempt.
\<close>

theorem server_error_only_500:
  assumes "500 \<le> response.status r"
  shows "TrelloError.code (handleError (ResponseValue r))
           = Some (if response.status r = 500 then ''SERVER_ERROR'' else ''API_ERROR'')
         \<and> TrelloError.status (handleError (ResponseValue r)) = Some (response.status r)
         \<and> (response.status r = 500 \<longrightarrow>
              message (handleError (ResponseValue r)) = ''Trello server error'')
         \<and> (response.status r \<noteq> 500 \<longrightarrow>
              message (handleError (ResponseValue r))
                = ''HTTP '' @ decimal (response.status r) @ '' error'')
         \<and> (attempt = maxRetries cfg \<and> fetch attempt = Inr r \<longrightarrow>
              makeRequest_loop cfg fetch attempt lastError
                = (Inl (handleError (ResponseValue r)), [Attempt attempt]))"
proof -
  have codes: "status_code (response.status r)
                 = (if response.status r = 500 then ''SERVER_ERROR'' else ''API_ERROR'')"
    using assms by (simp add: status_code_def)
  have msgs: "response.status r \<noteq> 500 \<longrightarrow>
                status_message (response.status r)
                  = ''HTTP '' @ decimal (response.status r) @ '' error''"
    using assms by (simp add: status_message_def)
  have msg500: "response.status r = 500 \<longrightarrow>
                status_message (response.status r) = ''Trello server error''"
    by (simp add: status_message_def)
  have bad: "\<not> ok r" and not429: "response.status r \<noteq> 429"
    using assms by (simp_all add: ok_def)
  have run: "attempt = maxRetries cfg \<and> fetch attempt = Inr r \<longrightarrow>
              makeRequest_loop cfg fetch attempt lastError
                = (Inl (handleError (ResponseValue r)), [Attempt attempt])"
  proof (intro impI, elim conjE)
    assume last: "attempt = maxRetries cfg" and got: "fetch attempt = Inr r"
    have "try_block (fetch attempt) = Thrown (ResponseValue r)"
      using got bad not429 by (simp add: try_block_failure)
    then show "makeRequest_loop cfg fetch attempt lastError
                = (Inl (handleError (ResponseValue r)), [Attempt attempt])"
      using last not429 by (intro loop_throw) simp_all
  qed
  show ?thesis
    using codes msgs msg500 run by (simp add: handleError_def)
qed

text \<open>C3, witness: a 502 response.\<close>

theorem server_error_only_500_witness:
  "(500::nat) \<le> response.status (plain_response 502 ''Bad Gateway'' Map.empty)
   \<and> TrelloError.code (handleError (ResponseValue (plain_response 502 ''Bad Gateway'' Map.empty)))
       = Some ''API_ERROR''
   \<and> TrelloError.status (handleError (ResponseValue (plain_response 502 ''Bad Gateway'' Map.empty)))
       = Some 502"
proof -
  have h: "(500::nat) \<le> response.status (plain_response 502 ''Bad Gateway'' Map.empty)"
    by (simp add: plain_response_def)
  have s: "response.status (plain_response 502 ''Bad Gateway'' Map.empty) = 502"
    by (simp add: plain_response_def)
  from server_error_only_500 [OF h] h s show ?thesis by simp
qed

text \<open>C3 as stated fails: three 503 responses end the call with \<^verbatim>\<open>API_ERROR\<close>.\<close>

theorem server_error_code_counterexample:
  "fst (makeRequest retryConfig (constant_backend (plain_response 503 ''Service Unavailable'' Map.empty)))
     = Inl \<lparr> message = ''HTTP 503 error'', error = Some ''503 - Service Unavailable'',
             status = Some 503, code = Some ''API_ERROR'' \<rparr>"
  by code_simp

subsection \<open>Rate-limit snapshot\<close>

text \<open>
  C4, as amended. A snapshot is produced if and only if the limit header is present and not
  empty. Its \<open>limit\<close> is the integer parse of that header, replaced by 300 when the parse is
  \<^verbatim>\<open>NaN\<close> or 0; \<open>remaining\<close> and \<open>resetTime\<close> are the integer parse of their headers, and 0
  when the header is missing or empty.
\<close>

theorem rate_limit_snapshot:
  "(extractRateLimitInfo r = None \<longleftrightarrow>
      headers r ''x-rate-limit-api-key-limit'' = None
      \<or> headers r ''x-rate-limit-api-key-limit'' = Some [])
   \<and> (\<forall>v. headers r ''x-rate-limit-api-key-limit'' = Some v \<and> v \<noteq> [] \<longrightarrow>
         extractRateLimitInfo r =
           Some \<lparr> limit = (if parseInt v = NaN \<or> parseInt v = Num 0 then Num 300 else parseInt v),
                   remaining =
                     (case headers r ''x-rate-limit-api-key-remaining'' of
                        None \<Rightarrow> Num 0
                      | Some s \<Rightarrow> if s = [] then Num 0 else parseInt s),
                   resetTime =
                     (case headers r ''x-rate-limit-api-key-reset'' of
                        None \<Rightarrow> Num 0
                      | Some s \<Rightarrow> if s = [] then Num 0 else parseInt s) \<rparr>)"
proof -
  have zero: "parseInt ''0'' = Num 0"
    by (simp add: parseInt_eval)
  have dflt: "parseInt (str_or h ''0'') = (case h of None \<Rightarrow> Num 0 | Some s \<Rightarrow> if s = [] then Num 0 else parseInt s)"
    for h
    using zero by (cases h) simp_all
  have lim: "num_or n (Num 300) = (if n = NaN \<or> n = Num 0 then Num 300 else n)" for n
    by (cases n) simp_all
  have none: "extractRateLimitInfo r = None \<longleftrightarrow>
      headers r ''x-rate-limit-api-key-limit'' = None
      \<or> headers r ''x-rate-limit-api-key-limit'' = Some []"
    by (cases "headers r ''x-rate-limit-api-key-limit''") (simp_all add: extractRateLimitInfo_def)
  have some: "\<forall>v. headers r ''x-rate-limit-api-key-limit'' = Some v \<and> v \<noteq> [] \<longrightarrow>
         extractRateLimitInfo r =
           Some \<lparr> limit = (if parseInt v = NaN \<or> parseInt v = Num 0 then Num 300 else parseInt v),
                   remaining =
                     (case headers r ''x-rate-limit-api-key-remaining'' of
                        None \<Rightarrow> Num 0
                      | Some s \<Rightarrow> if s = [] then Num 0 else parseInt s),
                   resetTime =
                     (case headers r ''x-rate-limit-api-key-reset'' of
                        None \<Rightarrow> Num 0
                      | Some s \<Rightarrow> if s = [] then Num 0 else parseInt s) \<rparr>"
    by (simp add: extractRateLimitInfo_def dflt lim)
  from none some show ?thesis by blast
qed

text \<open>C4, witness: the limit and remaining headers present, the reset header missing.\<close>

theorem rate_limit_snapshot_witness:
  "headers (plain_response 200 ''OK''
      [''x-rate-limit-api-key-limit'' \<mapsto> ''300'', ''x-rate-limit-api-key-remaining'' \<mapsto> ''250''])
      ''x-rate-limit-api-key-limit'' = Some ''300''
   \<and> extractRateLimitInfo (plain_response 200 ''OK''
      [''x-rate-limit-api-key-limit'' \<mapsto> ''300'', ''x-rate-limit-api-key-remaining'' \<mapsto> ''250''])
     = Some \<lparr> limit = Num 300, remaining = Num 250, resetTime = Num 0 \<rparr>"
proof -
  have h: "headers (plain_response 200 ''OK''
      [''x-rate-limit-api-key-limit'' \<mapsto> ''300'', ''x-rate-limit-api-key-remaining'' \<mapsto> ''250''])
      ''x-rate-limit-api-key-limit'' = Some ''300''"
    by (simp add: plain_response_def)
  have r: "headers (plain_response 200 ''OK''
      [''x-rate-limit-api-key-limit'' \<mapsto> ''300'', ''x-rate-limit-api-key-remaining'' \<mapsto> ''250''])
      ''x-rate-limit-api-key-remaining'' = Some ''250''"
    by (simp add: plain_response_def)
  have t: "headers (plain_response 200 ''OK''
      [''x-rate-limit-api-key-limit'' \<mapsto> ''300'', ''x-rate-limit-api-key-remaining'' \<mapsto> ''250''])
      ''x-rate-limit-api-key-reset'' = None"
    by (simp add: plain_response_def)
  have p1: "parseInt ''300'' = Num 300" by (simp add: parseInt_eval)
  have p2: "parseInt ''250'' = Num 250" by (simp add: parseInt_eval)
  from rate_limit_snapshot [of "plain_response 200 ''OK''
      [''x-rate-limit-api-key-limit'' \<mapsto> ''300'', ''x-rate-limit-api-key-remaining'' \<mapsto> ''250'']"]
    h r t p1 p2
  show ?thesis by simp
qed

text \<open>
  C4 as stated fails: an empty limit header is present yet gives no snapshot; a limit header
  \<^verbatim>\<open>0\<close> parses to 0 yet gives the limit 300; an unparsable remaining header gives \<^verbatim>\<open>NaN\<close>,
  not 0.
\<close>

theorem rate_limit_snapshot_counterexample:
  "headers (plain_response 200 ''OK'' [''x-rate-limit-api-key-limit'' \<mapsto> '''']) ''x-rate-limit-api-key-limit'' = Some ''''
   \<and> extractRateLimitInfo (plain_response 200 ''OK'' [''x-rate-limit-api-key-limit'' \<mapsto> '''']) = None
   \<and> parseInt ''0'' = Num 0
   \<and> extractRateLimitInfo (plain_response 200 ''OK'' [''x-rate-limit-api-key-limit'' \<mapsto> ''0''])
       = Some \<lparr> limit = Num 300, remaining = Num 0, resetTime = Num 0 \<rparr>
   \<and> extractRateLimitInfo (plain_response 200 ''OK''
         [''x-rate-limit-api-key-limit'' \<mapsto> ''100'', ''x-rate-limit-api-key-remaining'' \<mapsto> ''many''])
       = Some \<lparr> limit = Num 100, remaining = NaN, resetTime = Num 0 \<rparr>"
  by code_simp


subsection \<open>Terminal client errors\<close>

text \<open>
  C5. An HTTP failure with a status from 400 to 499 other than 429 is never retried: the loop
  ends at the attempt that received it, with the normalisation of that response, so a call
  whose first response is such a failure makes exactly one physical attempt. The error code
  is \<^verbatim>\<open>INVALID_CREDENTIALS\<close> for 401, \<^verbatim>\<open>INSUFFICIENT_PERMISSIONS\<close> for 403 and \<^verbatim>\<open>NOT_FOUND\<close>
  for 404.
\<close>

theorem client_error_single_attempt:
  assumes "attempt \<le> maxRetries cfg" and "fetch attempt = Inr r"
    and "400 \<le> response.status r" and "response.status r \<le> 499"
    and "response.status r \<noteq> 429"
  shows "makeRequest_loop cfg fetch attempt lastError
           = (Inl (handleError (ResponseValue r)), [Attempt attempt])
         \<and> (attempt = 1 \<longrightarrow>
              makeRequest cfg fetch = (Inl (handleError (ResponseValue r)), [Attempt 1]))
         \<and> TrelloError.status (handleError (ResponseValue r)) = Some (response.status r)
         \<and> (response.status r = 401 \<longrightarrow>
              TrelloError.code (handleError (ResponseValue r)) = Some ''INVALID_CREDENTIALS'')
         \<and> (response.status r = 403 \<longrightarrow>
              TrelloError.code (handleError (ResponseValue r)) = Some ''INSUFFICIENT_PERMISSIONS'')
         \<and> (response.status r = 404 \<longrightarrow>
              TrelloError.code (handleError (ResponseValue r)) = Some ''NOT_FOUND'')"
proof -
  have bad: "\<not> ok r"
    using assms(3) by (simp add: ok_def)
  have thrown: "try_block (fetch attempt) = Thrown (ResponseValue r)"
    using assms(2,5) bad by (simp add: try_block_failure)
  have terminal: "\<not> shouldRetry (ResponseValue r)"
    using assms(4,5) by (simp add: shouldRetry_def)
  have not429: "\<not> is_response_429 (ResponseValue r)"
    using assms(5) by simp
  have stop: "makeRequest_loop cfg fetch attempt le
           = (Inl (handleError (ResponseValue r)), [Attempt attempt])" for le
    using assms(1) thrown not429 terminal by (intro loop_throw) simp_all
  then have first: "attempt = 1 \<longrightarrow>
              makeRequest cfg fetch = (Inl (handleError (ResponseValue r)), [Attempt 1])"
    by (auto simp add: makeRequest_def)
  have fields: "TrelloError.status (handleError (ResponseValue r)) = Some (response.status r)"
    "TrelloError.code (handleError (ResponseValue r)) = Some (status_code (response.status r))"
    by (simp_all add: handleError_def)
  from stop first fields show ?thesis
    by (simp add: status_code_def)
qed

text \<open>C5, witness: a backend that answers 404.\<close>

theorem client_error_single_attempt_witness:
  "(1::nat) \<le> maxRetries retryConfig
   \<and> constant_backend (plain_response 404 ''Not Found'' Map.empty) 1
       = Inr (plain_response 404 ''Not Found'' Map.empty)
   \<and> (400::nat) \<le> response.status (plain_response 404 ''Not Found'' Map.empty)
   \<and> response.status (plain_response 404 ''Not Found'' Map.empty) \<le> 499
   \<and> response.status (plain_response 404 ''Not Found'' Map.empty) \<noteq> 429
   \<and> attempts (snd (makeRequest retryConfig (constant_backend (plain_response 404 ''Not Found'' Map.empty))))
       = [1]
   \<and> TrelloError.code (handleError (ResponseValue (plain_response 404 ''Not Found'' Map.empty)))
       = Some ''NOT_FOUND''"
proof -
  have h1: "(1::nat) \<le> maxRetries retryConfig" by (simp add: retryConfig_def)
  have h2: "constant_backend (plain_response 404 ''Not Found'' Map.empty) 1
       = Inr (plain_response 404 ''Not Found'' Map.empty)" by simp
  have s: "response.status (plain_response 404 ''Not Found'' Map.empty) = 404"
    by (simp add: plain_response_def)
  have h3: "(400::nat) \<le> response.status (plain_response 404 ''Not Found'' Map.empty)"
    and h4: "response.status (plain_response 404 ''Not Found'' Map.empty) \<le> 499"
    and h5: "response.status (plain_response 404 ''Not Found'' Map.empty) \<noteq> 429"
    by (simp_all add: s)
  from client_error_single_attempt
         [where attempt = 1 and cfg = retryConfig
            and fetch = "constant_backend (plain_response 404 ''Not Found'' Map.empty)"
            and r = "plain_response 404 ''Not Found'' Map.empty"
            and lastError = "Undefined :: unit thrown", OF h1 h2 h3 h4 h5]
       h1 h2 h3 h4 h5 s
  show ?thesis by (simp add: attempts_simps)
qed

subsection \<open>Retryable failures and back-off\<close>

text \<open>
  C6. A failure of attempt \<open>n\<close> that is a network failure (a \<^verbatim>\<open>TypeError\<close> whose message
  mentions \<^verbatim>\<open>fetch\<close>), a timeout (an \<^verbatim>\<open>AbortError\<close>) or an HTTP response with status 500 or
  more is classified retryable. If \<open>n < maxRetries\<close> the client sleeps
  \<open>min (baseDelay * 2^(n-1)) maxDelay\<close> milliseconds and makes attempt \<open>n + 1\<close>; if
  \<open>n = maxRetries\<close> the call fails with the normalisation of that failure. No call makes
  more than \<open>maxRetries\<close> attempts.
\<close>

theorem retryable_failure_backoff:
  assumes "1 \<le> attempt" and "attempt \<le> maxRetries cfg"
    and "(\<exists>e. fetch attempt = Inl (ErrorValue e) \<and> err = ErrorValue e
               \<and> is_TypeError e \<and> str_includes (err_message e) ''fetch'')
         \<or> (\<exists>e. fetch attempt = Inl (ErrorValue e) \<and> err = ErrorValue e
               \<and> err_name e = ''AbortError'')
         \<or> (\<exists>r. fetch attempt = Inr r \<and> err = ResponseValue r \<and> 500 \<le> response.status r)"
  shows "shouldRetry err
         \<and> (attempt < maxRetries cfg \<longrightarrow>
              makeRequest_loop cfg fetch attempt lastError
                = prepend [Attempt attempt,
                           Sleep (Num (min (baseDelay cfg * 2 ^ (attempt - 1)) (maxDelay cfg)))]
                    (makeRequest_loop cfg fetch (attempt + 1) err)
              \<and> (\<exists>rest. attempts (snd (makeRequest_loop cfg fetch (attempt + 1) err))
                          = (attempt + 1) # rest))
         \<and> (attempt = maxRetries cfg \<longrightarrow>
              makeRequest_loop cfg fetch attempt lastError
                = (Inl (handleError err), [Attempt attempt]))
         \<and> length (attempts (snd (makeRequest cfg fetch))) \<le> maxRetries cfg"
proof -
  from assms(3) have facts:
    "try_block (fetch attempt) = Thrown err \<and> shouldRetry err \<and> \<not> is_response_429 err"
  proof (elim disjE exE conjE)
    fix e assume "fetch attempt = Inl (ErrorValue e)" "err = ErrorValue e"
      "is_TypeError e" "str_includes (err_message e) ''fetch''"
    then show ?thesis by (simp add: try_block_rejected shouldRetry_def)
  next
    fix e assume "fetch attempt = Inl (ErrorValue e)" "err = ErrorValue e"
      "err_name e = ''AbortError''"
    then show ?thesis by (simp add: try_block_rejected shouldRetry_def)
  next
    fix r assume got: "fetch attempt = Inr r" and e: "err = ResponseValue r"
      and s: "500 \<le> response.status r"
    from s have "\<not> ok r" and "response.status r \<noteq> 429" by (simp_all add: ok_def)
    with got e s show ?thesis by (simp add: try_block_failure shouldRetry_def)
  qed
  have retry: "attempt < maxRetries cfg \<longrightarrow>
              makeRequest_loop cfg fetch attempt lastError
                = prepend [Attempt attempt,
                           Sleep (Num (min (baseDelay cfg * 2 ^ (attempt - 1)) (maxDelay cfg)))]
                    (makeRequest_loop cfg fetch (attempt + 1) err)"
    using facts by (simp add: loop_retry calculateBackoffDelay_def)
  have again: "attempt < maxRetries cfg \<longrightarrow>
              (\<exists>rest. attempts (snd (makeRequest_loop cfg fetch (attempt + 1) err))
                          = (attempt + 1) # rest)"
    using loop_first_attempt [of "attempt + 1" cfg fetch err] by simp
  have last: "attempt = maxRetries cfg \<longrightarrow>
              makeRequest_loop cfg fetch attempt lastError
                = (Inl (handleError err), [Attempt attempt])"
    using facts assms(2) by (auto intro: loop_throw)
  have bound: "length (attempts (snd (makeRequest cfg fetch))) \<le> maxRetries cfg"
    using loop_attempts_bounded [of cfg fetch 1 Undefined] by (simp add: makeRequest_def)
  from facts retry again last bound show ?thesis by blast
qed

text \<open>C6, witness: the second of three 500 responses is followed by a sleep of 2000 ms.\<close>

theorem retryable_failure_backoff_witness:
  "(1::nat) \<le> 2 \<and> (2::nat) \<le> maxRetries retryConfig
   \<and> constant_backend (plain_response 500 ''Internal Server Error'' Map.empty) 2
       = Inr (plain_response 500 ''Internal Server Error'' Map.empty)
   \<and> (500::nat) \<le> response.status (plain_response 500 ''Internal Server Error'' Map.empty)
   \<and> makeRequest_loop retryConfig
         (constant_backend (plain_response 500 ''Internal Server Error'' Map.empty)) 2 Undefined
       = prepend [Attempt 2, Sleep (Num 2000)]
           (makeRequest_loop retryConfig
              (constant_backend (plain_response 500 ''Internal Server Error'' Map.empty)) 3
              (ResponseValue (plain_response 500 ''Internal Server Error'' Map.empty)))"
proof -
  have h1: "(1::nat) \<le> 2" by simp
  have h2: "(2::nat) \<le> maxRetries retryConfig" by (simp add: retryConfig_def)
  have g: "constant_backend (plain_response 500 ''Internal Server Error'' Map.empty) 2
       = Inr (plain_response 500 ''Internal Server Error'' Map.empty)" by simp
  have s: "(500::nat) \<le> response.status (plain_response 500 ''Internal Server Error'' Map.empty)"
    by (simp add: plain_response_def)
  have h3: "(\<exists>e. constant_backend (plain_response 500 ''Internal Server Error'' Map.empty) 2
                   = Inl (ErrorValue e)
                 \<and> ResponseValue (plain_response 500 ''Internal Server Error'' Map.empty) = ErrorValue e
                 \<and> is_TypeError e \<and> str_includes (err_message e) ''fetch'')
         \<or> (\<exists>e. constant_backend (plain_response 500 ''Internal Server Error'' Map.empty) 2
                   = Inl (ErrorValue e)
                 \<and> ResponseValue (plain_response 500 ''Internal Server Error'' Map.empty) = ErrorValue e
                 \<and> err_name e = ''AbortError'')
         \<or> (\<exists>r. constant_backend (plain_response 500 ''Internal Server Error'' Map.empty) 2 = Inr r
                 \<and> ResponseValue (plain_response 500 ''Internal Server Error'' Map.empty)
                     = ResponseValue r
                 \<and> 500 \<le> response.status r)"
    using g s by blast
  have lt: "(2::nat) < maxRetries retryConfig" by (simp add: retryConfig_def)
  have d: "min (baseDelay retryConfig * 2 ^ (2 - 1)) (maxDelay retryConfig) = 2000"
    by (simp add: retryConfig_def)
  from retryable_failure_backoff
         [where attempt = 2 and cfg = retryConfig
            and fetch = "constant_backend (plain_response 500 ''Internal Server Error'' Map.empty)"
            and err = "ResponseValue (plain_response 500 ''Internal Server Error'' Map.empty)"
            and lastError = "Undefined :: unit thrown", OF h1 h2 h3]
       h1 h2 g s lt d
  show ?thesis by simp
qed

text \<open>
  When every attempt from \<open>attempt\<close> on fails retryably, the loop makes all the remaining
  attempts, sleeps the back-off delay between them, and fails with the last failure.
\<close>

lemma all_attempts_retryable:
  assumes "\<And>n. attempt \<le> n \<Longrightarrow> n \<le> maxRetries cfg \<Longrightarrow>
             try_block (fetch n) = Thrown (errs n) \<and> shouldRetry (errs n)
             \<and> \<not> is_response_429 (errs n)"
    and "attempt \<le> maxRetries cfg"
  shows "makeRequest_loop cfg fetch attempt lastError
           = (Inl (handleError (errs (maxRetries cfg))),
              concat (map (\<lambda>n. [Attempt n, Sleep (Num (calculateBackoffDelay cfg n))])
                        [attempt..<maxRetries cfg])
              @ [Attempt (maxRetries cfg)])"
  using assms
proof (induction "maxRetries cfg - attempt" arbitrary: attempt lastError)
  case 0
  then have last: "attempt = maxRetries cfg" by simp
  from "0.prems"(1) [of attempt] last
  have "try_block (fetch attempt) = Thrown (errs attempt)" "\<not> is_response_429 (errs attempt)"
    by simp_all
  then have "makeRequest_loop cfg fetch attempt lastError
               = (Inl (handleError (errs attempt)), [Attempt attempt])"
    using last by (intro loop_throw) simp_all
  with last show ?case by simp
next
  case (Suc k)
  then have lt: "attempt < maxRetries cfg" by simp
  from Suc.prems(1) [of attempt] lt
  have here: "try_block (fetch attempt) = Thrown (errs attempt)" "shouldRetry (errs attempt)"
    "\<not> is_response_429 (errs attempt)"
    by simp_all
  have step: "makeRequest_loop cfg fetch attempt lastError
                = prepend [Attempt attempt, Sleep (Num (calculateBackoffDelay cfg attempt))]
                    (makeRequest_loop cfg fetch (attempt + 1) (errs attempt))"
    using lt here by (simp add: loop_retry)
  have rest: "makeRequest_loop cfg fetch (attempt + 1) (errs attempt)
           = (Inl (handleError (errs (maxRetries cfg))),
              concat (map (\<lambda>n. [Attempt n, Sleep (Num (calculateBackoffDelay cfg n))])
                        [attempt + 1..<maxRetries cfg])
              @ [Attempt (maxRetries cfg)])"
  proof (rule Suc.hyps(1))
    show "k = maxRetries cfg - (attempt + 1)" using Suc.hyps(2) by simp
    show "attempt + 1 \<le> maxRetries cfg" using lt by simp
    show "try_block (fetch n) = Thrown (errs n) \<and> shouldRetry (errs n)
             \<and> \<not> is_response_429 (errs n)"
      if "attempt + 1 \<le> n" "n \<le> maxRetries cfg" for n
      using that Suc.prems(1) [of n] by simp
  qed
  have "[attempt..<maxRetries cfg] = attempt # [attempt + 1..<maxRetries cfg]"
    using lt by (simp add: upt_conv_Cons)
  with step rest show ?case by (simp add: prepend_def)
qed

subsection \<open>One normalised error per failed call\<close>

text \<open>
  C7. Whatever the backend does and however many attempts were made, a call of
  \<^verbatim>\<open>makeRequest\<close> that fails does so with one \<^verbatim>\<open>TrelloError\<close>: a result of \<^verbatim>\<open>handleError\<close>,
  whose code is one of the nine codes of the enumeration. (The function is total: every call
  returns a payload or fails with such an error.)
\<close>

theorem failure_is_normalized_error:
  assumes "fst (makeRequest cfg (fetch :: nat \<Rightarrow> 'd thrown + 'd response)) = Inl e"
  shows "(\<exists>x :: 'd thrown. e = handleError x)
         \<and> TrelloError.code e \<in>
             {Some ''NETWORK_ERROR'', Some ''TIMEOUT_ERROR'', Some ''INVALID_CREDENTIALS'',
              Some ''INSUFFICIENT_PERMISSIONS'', Some ''NOT_FOUND'', Some ''RATE_LIMIT_EXCEEDED'',
              Some ''SERVER_ERROR'', Some ''API_ERROR'', Some ''UNKNOWN_ERROR''}"
proof -
  from assms obtain x :: "'d thrown" where x: "e = handleError x"
    unfolding makeRequest_def by (blast dest: loop_error_normalized)
  have "TrelloError.code (handleError x) \<in>
             {Some ''NETWORK_ERROR'', Some ''TIMEOUT_ERROR'', Some ''INVALID_CREDENTIALS'',
              Some ''INSUFFICIENT_PERMISSIONS'', Some ''NOT_FOUND'', Some ''RATE_LIMIT_EXCEEDED'',
              Some ''SERVER_ERROR'', Some ''API_ERROR'', Some ''UNKNOWN_ERROR''}"
    by (cases x) (simp_all add: handleError_def status_code_def)
  with x show ?thesis by blast
qed

text \<open>C7, witness: a call answered 403.\<close>

theorem failure_is_normalized_error_witness:
  "fst (makeRequest retryConfig (constant_backend (plain_response 403 ''Forbidden'' Map.empty)))
     = Inl (handleError (ResponseValue (plain_response 403 ''Forbidden'' Map.empty)))
   \<and> TrelloError.code (handleError (ResponseValue (plain_response 403 ''Forbidden'' Map.empty)))
       \<in> {Some ''NETWORK_ERROR'', Some ''TIMEOUT_ERROR'', Some ''INVALID_CREDENTIALS'',
              Some ''INSUFFICIENT_PERMISSIONS'', Some ''NOT_FOUND'', Some ''RATE_LIMIT_EXCEEDED'',
              Some ''SERVER_ERROR'', Some ''API_ERROR'', Some ''UNKNOWN_ERROR''}"
proof -
  have h: "fst (makeRequest retryConfig (constant_backend (plain_response 403 ''Forbidden'' Map.empty)))
     = Inl (handleError (ResponseValue (plain_response 403 ''Forbidden'' Map.empty)))"
    by code_simp
  from failure_is_normalized_error [OF h] h show ?thesis by blast
qed

subsection \<open>Successful responses\<close>

text \<open>
  C8, as amended. When an attempt receives a response with a status from 200 to 299 and the
  body parses as JSON, the call returns the parsed body and the rate-limit snapshot of that
  response at once: no further attempt is made.
\<close>

theorem success_returns_at_once:
  assumes "attempt \<le> maxRetries cfg" and "fetch attempt = Inr r"
    and "200 \<le> response.status r" and "response.status r \<le> 299"
    and "json r = Inr d"
  shows "makeRequest_loop cfg fetch attempt lastError
           = (Inr \<lparr> data = d, rateLimit = extractRateLimitInfo r \<rparr>, [Attempt attempt])"
proof -
  have "ok r" using assms(3,4) by (simp add: ok_def)
  then have "try_block (fetch attempt)
               = Returned \<lparr> data = d, rateLimit = extractRateLimitInfo r \<rparr>"
    using assms(2,5) by (simp add: try_block_success)
  with assms(1) show ?thesis by (rule loop_returned)
qed

text \<open>C8, witness: a 200 response on the first attempt.\<close>

theorem success_returns_at_once_witness:
  "(1::nat) \<le> maxRetries retryConfig
   \<and> constant_backend (plain_response 200 ''OK'' Map.empty) 1 = Inr (plain_response 200 ''OK'' Map.empty)
   \<and> (200::nat) \<le> response.status (plain_response 200 ''OK'' Map.empty)
   \<and> response.status (plain_response 200 ''OK'' Map.empty) \<le> 299
   \<and> json (plain_response 200 ''OK'' Map.empty) = Inr ()
   \<and> makeRequest retryConfig (constant_backend (plain_response 200 ''OK'' Map.empty))
       = (Inr \<lparr> data = (), rateLimit = None \<rparr>, [Attempt 1])"
proof -
  have h1: "(1::nat) \<le> maxRetries retryConfig" by (simp add: retryConfig_def)
  have h2: "constant_backend (plain_response 200 ''OK'' Map.empty) 1
              = Inr (plain_response 200 ''OK'' Map.empty)" by simp
  have h3: "(200::nat) \<le> response.status (plain_response 200 ''OK'' Map.empty)"
    and h4: "response.status (plain_response 200 ''OK'' Map.empty) \<le> 299"
    and h5: "json (plain_response 200 ''OK'' Map.empty) = Inr ()"
    by (simp_all add: plain_response_def)
  have rl: "extractRateLimitInfo (plain_response 200 ''OK'' Map.empty) = None"
    by (simp add: extractRateLimitInfo_def plain_response_def)
  from success_returns_at_once
         [where attempt = 1 and cfg = retryConfig
            and fetch = "constant_backend (plain_response 200 ''OK'' Map.empty)"
            and r = "plain_response 200 ''OK'' Map.empty" and d = "()"
            and lastError = "Undefined :: unit thrown", OF h1 h2 h3 h4 h5]
       h1 h2 h3 h4 h5 rl
  show ?thesis by (simp add: makeRequest_def)
qed

text \<open>
  C8 as stated fails: a 200 response whose body is not JSON returns nothing; the call fails
  with \<^verbatim>\<open>UNKNOWN_ERROR\<close> after that one attempt.
\<close>

theorem unparsable_success_counterexample:
  "makeRequest retryConfig (constant_backend unparsable_body_response)
     = (Inl \<lparr> message = ''Unknown error occurred'', error = Some ''Unexpected end of JSON input'',
             status = None, code = Some ''UNKNOWN_ERROR'' \<rparr>, [Attempt 1])"
  by code_simp


subsection \<open>The request URL\<close>














subsection \<open>Double encoding of the search query\<close>



















end
